theory Spec2Isabelle
  imports Complex_Main
begin

section \<open>Errors\<close>

text \<open>
  Every exception the two modules can raise is a value of one datatype. The names are
  those of the Python exceptions: \<open>CalledProcessError\<close> and \<open>FileNotFoundError\<close>
  come from \<^verbatim>\<open>subprocess.run\<close>, the others from the dataframe library.
  \<open>InvalidOperationError\<close> is the library's conversion failure (a string that is no
  number or no date), \<open>SchemaError\<close> its complaint about an operation on a column of
  the wrong type. \<open>OutsideModel\<close> is no exception of the program: it marks inputs at
  which the behaviour of the library is not modelled here (regular expressions with
  metacharacters, quoted CSV fields, ragged CSV lines, schema inference, transposing
  columns of mixed types). No theorem below draws a conclusion about the program from it.
\<close>

datatype error =
    CalledProcessError int "string list" string string
  | FileNotFoundError
  | ColumnNotFoundError string
  | DuplicateError
  | ShapeError
  | NoDataError
  | SchemaError
  | InvalidOperationError
  | TypeError
  | OutsideModel

section \<open>The command builder (hlcommand.py)\<close>

record hledger_command =
  command :: string
  ledgerfile :: "string option"
  begin_date :: "string option"
  end_date :: "string option"
  period :: "string option"
  periodic :: "string option"
  output_format :: "string option"
  other_options :: "string list option"

text \<open>The constructor \<^verbatim>\<open>__init__\<close>: every option defaults to \<open>None\<close>.\<close>

definition init ::
  "string option \<Rightarrow> string option \<Rightarrow> string option \<Rightarrow> string option \<Rightarrow> string option \<Rightarrow>
   string option \<Rightarrow> string list option \<Rightarrow> hledger_command" where
  "init lf bd ed p pc ofmt oo =
     \<lparr>command = ''hledger'', ledgerfile = lf, begin_date = bd, end_date = ed, period = p,
      periodic = pc, output_format = ofmt, other_options = oo\<rparr>"

text \<open>
  Python's truth test on a value of type \<^verbatim>\<open>str | None\<close> or
  \<^verbatim>\<open>list[str] | None\<close>: \<open>None\<close> and the empty sequence are false.
\<close>

definition truthy :: "'a list option \<Rightarrow> bool" where
  "truthy v = (case v of None \<Rightarrow> False | Some xs \<Rightarrow> xs \<noteq> [])"

text \<open>The value read under a truth test that succeeded.\<close>

definition val :: "'a list option \<Rightarrow> 'a list" where
  "val v = (case v of None \<Rightarrow> [] | Some xs \<Rightarrow> xs)"

text \<open>
  Lines 56 to 95 of \<^verbatim>\<open>run\<close>: the list \<^verbatim>\<open>full_command\<close> is built by
  appending, one statement after the other; each \<^verbatim>\<open>for\<close> loop is a fold that
  appends one element per round.
\<close>

definition full_command ::
  "hledger_command \<Rightarrow> string \<Rightarrow> string list option \<Rightarrow> string list option \<Rightarrow>
   string list option \<Rightarrow> string list" where
  "full_command self subcommand accounts ignore extra_options =
     (let fc = [''hledger'', subcommand];
          fc = (if truthy (ledgerfile self) then fc @ [''--file='' @ val (ledgerfile self)] else fc);
          fc = (if truthy (period self) then fc @ [''--period='' @ val (period self)] else fc);
          fc = (if truthy (begin_date self) then fc @ [''--begin='' @ val (begin_date self)] else fc);
          fc = (if truthy (end_date self) then fc @ [''--end='' @ val (end_date self)] else fc);
          fc = (if truthy (periodic self) then fc @ [''--'' @ val (periodic self)] else fc);
          fc = (if truthy (output_format self)
                then fc @ [''--output-format='' @ val (output_format self)] else fc);
          fc = (if truthy (other_options self)
                then fold (\<lambda>opt acc. acc @ [opt]) (val (other_options self)) fc else fc);
          fc = (if truthy extra_options
                then fold (\<lambda>opt acc. acc @ [opt]) (val extra_options) fc else fc);
          fc = (if truthy accounts
                then fold (\<lambda>acct acc. acc @ [acct]) (val accounts) fc else fc);
          fc = (if truthy ignore
                then fold (\<lambda>acct acc. acc @ [''not:'' @ acct]) (val ignore) fc else fc)
      in fc)"

text \<open>
  The external process. \<^verbatim>\<open>subprocess.run\<close> is given the argument list and
  answers with an exit status and the two captured texts, or cannot start the executable
  at all. What the tool answers is not the program's business, so the operating system is
  a parameter \<open>os\<close> of the model: a function from the argument list to the completed
  process, \<open>None\<close> when the executable cannot be started.
\<close>

record completed_process =
  returncode :: int
  stdout :: string
  stderr :: string

text \<open>
  \<^verbatim>\<open>subprocess.run(args, stdout=PIPE, stderr=PIPE, text=True, check=True)\<close>:
  with \<^verbatim>\<open>check=True\<close> a non-zero exit status raises
  \<^verbatim>\<open>CalledProcessError(returncode, cmd, output, stderr)\<close>.
\<close>

definition subprocess_run ::
  "(string list \<Rightarrow> completed_process option) \<Rightarrow> string list \<Rightarrow> error + completed_process" where
  "subprocess_run os args =
     (case os args of
        None \<Rightarrow> Inl FileNotFoundError
      | Some result \<Rightarrow>
          if returncode result \<noteq> 0
          then Inl (CalledProcessError (returncode result) args (stdout result) (stderr result))
          else Inr result)"

text \<open>
  What \<^verbatim>\<open>run\<close> returns: the text itself, or \<^verbatim>\<open>StringIO(text)\<close>, the
  in-memory seekable text stream over it.
\<close>

datatype run_result = Text string | StringIO string

definition run ::
  "(string list \<Rightarrow> completed_process option) \<Rightarrow> hledger_command \<Rightarrow> string \<Rightarrow>
   string list option \<Rightarrow> string list option \<Rightarrow> string list option \<Rightarrow> error + run_result" where
  "run os self subcommand accounts ignore extra_options =
     (case subprocess_run os (full_command self subcommand accounts ignore extra_options) of
        Inl e \<Rightarrow> Inl e
      | Inr result \<Rightarrow>
          if truthy (output_format self) then Inr (StringIO (stdout result))
          else Inr (Text (stdout result)))"

subsection \<open>The argument order of section 4.1, as the specification words it\<close>

text \<open>
  An option is configured when it was given and is not empty (the truth test of the
  source); a configured option contributes one argument, the prefix followed by its
  value, and an option that is not configured contributes nothing.
\<close>

definition flag :: "string \<Rightarrow> string option \<Rightarrow> string list" where
  "flag pre v = (case v of None \<Rightarrow> [] | Some s \<Rightarrow> if s = [] then [] else [pre @ s])"

definition listed :: "string list option \<Rightarrow> string list" where
  "listed v = (case v of None \<Rightarrow> [] | Some xs \<Rightarrow> xs)"

definition argument_order ::
  "hledger_command \<Rightarrow> string \<Rightarrow> string list option \<Rightarrow> string list option \<Rightarrow>
   string list option \<Rightarrow> string list" where
  "argument_order self subcommand accounts ignore extra_options =
     [''hledger'', subcommand]
     @ flag ''--file='' (ledgerfile self)
     @ flag ''--period='' (period self)
     @ flag ''--begin='' (begin_date self)
     @ flag ''--end='' (end_date self)
     @ flag ''--'' (periodic self)
     @ flag ''--output-format='' (output_format self)
     @ listed (other_options self)
     @ listed extra_options
     @ listed accounts
     @ map (\<lambda>acct. ''not:'' @ acct) (listed ignore)"

section \<open>Tables: the dataframe library as hldataframe.py uses it\<close>

text \<open>
  \<^verbatim>\<open>HLDataFrame\<close> subclasses the library's \<^verbatim>\<open>DataFrame\<close> and every method
  of the module is a composition of library calls. The library is not part of the
  repository, so this section models the calls the module makes, each from its documented
  behaviour, on the inputs the module can give it; the module's own methods follow in the
  next section, translated line by line.

  A table is the ordered list of its named columns. A column has one type for all its
  values and every value may be null: \<open>None\<close>. Strings are the UTF-8 bytes of the
  text, as the library stores them; a search for a substring gives the same answer on
  bytes as on characters. The library's 64-bit floats and its datetimes stay abstract:
  they are the type parameters \<open>'f\<close> and \<open>'t\<close>, and the two conversions from
  strings (\<^verbatim>\<open>cast(pl.Float64)\<close> and \<^verbatim>\<open>str.to_datetime\<close>) are parameters of
  the functions that use them.
\<close>

datatype ('f, 't) series =
    Utf8 "string option list"
  | Float64 "'f option list"
  | Datetime "'t option list"

type_synonym ('f, 't) frame = "(string \<times> ('f, 't) series) list"

text \<open>The values Python sees, as \<^verbatim>\<open>Series.to_list()\<close> returns them.\<close>

datatype ('f, 't) pyval = PyNone | PyStr string | PyFloat 'f | PyDatetime 't

fun to_list :: "('f, 't) series \<Rightarrow> ('f, 't) pyval list" where
  "to_list (Utf8 vs) = map (\<lambda>v. case v of None \<Rightarrow> PyNone | Some s \<Rightarrow> PyStr s) vs"
| "to_list (Float64 vs) = map (\<lambda>v. case v of None \<Rightarrow> PyNone | Some x \<Rightarrow> PyFloat x) vs"
| "to_list (Datetime vs) = map (\<lambda>v. case v of None \<Rightarrow> PyNone | Some x \<Rightarrow> PyDatetime x) vs"

fun series_len :: "('f, 't) series \<Rightarrow> nat" where
  "series_len (Utf8 vs) = length vs"
| "series_len (Float64 vs) = length vs"
| "series_len (Datetime vs) = length vs"

fun str_values :: "('f, 't) series \<Rightarrow> string option list option" where
  "str_values (Utf8 vs) = Some vs"
| "str_values _ = None"

definition columns :: "('f, 't) frame \<Rightarrow> string list" where
  "columns df = map fst df"

definition width :: "('f, 't) frame \<Rightarrow> nat" where
  "width df = length df"

definition height :: "('f, 't) frame \<Rightarrow> nat" where
  "height df = (case df of [] \<Rightarrow> 0 | c # _ \<Rightarrow> series_len (snd c))"

text \<open>
  The invariant of the library's tables: the column names are pairwise different and all
  columns have the same length.
\<close>

definition wf_frame :: "('f, 't) frame \<Rightarrow> bool" where
  "wf_frame df \<longleftrightarrow> distinct (columns df) \<and> list_all (\<lambda>c. series_len (snd c) = height df) df"

definition all_utf8 :: "('f, 't) frame \<Rightarrow> bool" where
  "all_utf8 df \<longleftrightarrow> list_all (\<lambda>c. str_values (snd c) \<noteq> None) df"

text \<open>
  The rows of a table of height \<open>h\<close>, from its columns: row \<open>i\<close> lists the
  \<open>i\<close>-th value of every column, in column order.
\<close>

fun zip_rows :: "nat \<Rightarrow> 'a list list \<Rightarrow> 'a list list" where
  "zip_rows h [] = replicate h []"
| "zip_rows h (c # cs) = map2 (#) c (zip_rows h cs)"

definition rows :: "('f, 't) frame \<Rightarrow> ('f, 't) pyval list list" where
  "rows df = zip_rows (height df) (map (\<lambda>c. to_list (snd c)) df)"

subsection \<open>Columns by name\<close>

text \<open>\<^verbatim>\<open>df[name]\<close> and \<^verbatim>\<open>pl.col(name)\<close>: a name that is no column raises.\<close>

definition get_column :: "string \<Rightarrow> ('f, 't) frame \<Rightarrow> error + ('f, 't) series" where
  "get_column name df =
     (case map_of df name of None \<Rightarrow> Inl (ColumnNotFoundError name) | Some s \<Rightarrow> Inr s)"

text \<open>
  \<^verbatim>\<open>df.rename(mapping)\<close>: every key must be a column, and the names after the
  renaming must still be pairwise different.
\<close>

definition rename :: "(string \<times> string) list \<Rightarrow> ('f, 't) frame \<Rightarrow> error + ('f, 't) frame" where
  "rename mapping df =
     (case filter (\<lambda>k. k \<notin> set (columns df)) (map fst mapping) of
        k # _ \<Rightarrow> Inl (ColumnNotFoundError k)
      | [] \<Rightarrow>
          let df' = map (\<lambda>c. (case map_of mapping (fst c) of None \<Rightarrow> fst c | Some n \<Rightarrow> n, snd c)) df
          in if distinct (columns df') then Inr df' else Inl DuplicateError)"

text \<open>\<^verbatim>\<open>df.drop(name)\<close>.\<close>

definition drop_col :: "string \<Rightarrow> ('f, 't) frame \<Rightarrow> error + ('f, 't) frame" where
  "drop_col name df =
     (if name \<in> set (columns df) then Inr (filter (\<lambda>c. fst c \<noteq> name) df)
      else Inl (ColumnNotFoundError name))"

text \<open>
  \<^verbatim>\<open>df.columns = names\<close>. The names must be strings, as many as the table has
  columns, and pairwise different.
\<close>

fun py_str :: "('f, 't) pyval \<Rightarrow> string option" where
  "py_str (PyStr s) = Some s"
| "py_str _ = None"

definition set_columns :: "('f, 't) pyval list \<Rightarrow> ('f, 't) frame \<Rightarrow> error + ('f, 't) frame" where
  "set_columns names df =
     (case those (map py_str names) of
        None \<Rightarrow> Inl TypeError
      | Some ns \<Rightarrow>
          if length ns \<noteq> width df then Inl ShapeError
          else if distinct ns then Inr (zip ns (map snd df))
          else Inl DuplicateError)"

subsection \<open>The library's transpose\<close>

fun digit_char :: "nat \<Rightarrow> char" where
  "digit_char n = ''0123456789'' ! n"

fun string_of_nat :: "nat \<Rightarrow> string" where
  "string_of_nat n =
     (if n < 10 then [digit_char n] else string_of_nat (n div 10) @ [digit_char (n mod 10)])"

text \<open>
  \<^verbatim>\<open>DataFrame.transpose(include_header=...)\<close>, with the header column under its
  default name \<open>column\<close> and the new columns under their default names
  \<open>column_0\<close>, \<open>column_1\<close>, and so on, one for each row of the input. A table
  without rows or without columns cannot be transposed. The result has the common type of
  the input's columns; only the case that all of them are string columns is modelled.
\<close>

definition pl_transpose :: "bool \<Rightarrow> ('f, 't) frame \<Rightarrow> error + ('f, 't) frame" where
  "pl_transpose include_header df =
     (if height df = 0 \<or> width df = 0 then Inl NoDataError
      else case those (map (\<lambda>c. str_values (snd c)) df) of
        None \<Rightarrow> Inl OutsideModel
      | Some cols \<Rightarrow>
          let body = map2 (\<lambda>i r. (''column_'' @ string_of_nat i, Utf8 r))
                       [0..<height df] (zip_rows (height df) cols)
          in Inr (if include_header
                  then (''column'', Utf8 (map (\<lambda>c. Some (fst c)) df)) # body
                  else body))"

subsection \<open>Adding and filtering\<close>

text \<open>
  \<^verbatim>\<open>df.with_columns(exprs)\<close>, once the expressions are evaluated to named columns:
  a column whose name exists replaces the old one in its place, a new name is appended.
\<close>

definition upsert :: "string \<times> ('f, 't) series \<Rightarrow> ('f, 't) frame \<Rightarrow> ('f, 't) frame" where
  "upsert new df =
     (if fst new \<in> set (columns df) then map (\<lambda>c. if fst c = fst new then new else c) df
      else df @ [new])"

definition with_columns ::
  "(string \<times> ('f, 't) series) list \<Rightarrow> ('f, 't) frame \<Rightarrow> error + ('f, 't) frame" where
  "with_columns new df =
     (if \<not> distinct (map fst new) then Inl DuplicateError
      else if list_all (\<lambda>c. series_len (snd c) = height df) new then Inr (fold upsert new df)
      else Inl ShapeError)"

text \<open>
  A list of expressions is evaluated against the unchanged table; the first one that
  fails makes the whole call fail.
\<close>

fun sequence :: "('e + 'a) list \<Rightarrow> 'e + 'a list" where
  "sequence [] = Inr []"
| "sequence (r # rs) =
     (case r of
        Inl e \<Rightarrow> Inl e
      | Inr x \<Rightarrow> (case sequence rs of Inl e \<Rightarrow> Inl e | Inr xs \<Rightarrow> Inr (x # xs)))"

text \<open>
  \<^verbatim>\<open>df.filter(condition)\<close>, once the condition is evaluated to one value per row:
  a row is kept when its value is true, and dropped when it is false or null.
\<close>

fun mask_filter :: "bool option list \<Rightarrow> 'a list \<Rightarrow> 'a list" where
  "mask_filter (m # ms) (x # xs) =
     (if m = Some True then x # mask_filter ms xs else mask_filter ms xs)"
| "mask_filter _ _ = []"

fun filter_series :: "bool option list \<Rightarrow> ('f, 't) series \<Rightarrow> ('f, 't) series" where
  "filter_series m (Utf8 vs) = Utf8 (mask_filter m vs)"
| "filter_series m (Float64 vs) = Float64 (mask_filter m vs)"
| "filter_series m (Datetime vs) = Datetime (mask_filter m vs)"

definition filter_df :: "bool option list \<Rightarrow> ('f, 't) frame \<Rightarrow> error + ('f, 't) frame" where
  "filter_df condition df =
     (if length condition \<noteq> height df then Inl ShapeError
      else Inr (map (\<lambda>c. (fst c, filter_series condition (snd c))) df))"

text \<open>The operator \<^verbatim>\<open>~\<close> on a condition: null stays null.\<close>

definition invert :: "bool option list \<Rightarrow> bool option list" where
  "invert condition = map (map_option Not) condition"

subsection \<open>String expressions\<close>

text \<open>
  \<^verbatim>\<open>str.contains(pattern)\<close> and \<^verbatim>\<open>str.replace(pattern, value)\<close> read the
  pattern as a regular expression. What the library's expressions mean is a parameter of
  \<^verbatim>\<open>str.contains\<close>: an engine gives, for a pattern, the test whether a string
  contains a match of it, or the error with which the library refuses the pattern.
  Modelled here are the patterns without metacharacters, where the expression means its
  own text, for \<^verbatim>\<open>str.contains\<close> their alternations with \<open>|\<close>, and for
  \<^verbatim>\<open>str.replace\<close> such a text before the anchor \<open>$\<close>, which matches at the
  end of the string only.
\<close>

type_synonym engine = "string \<Rightarrow> error + (string \<Rightarrow> bool)"

definition metachars :: "char list" where
  "metachars = [CHR 0x5C, CHR ''.'', CHR ''+'', CHR ''*'', CHR ''?'', CHR ''('', CHR '')'',
                CHR ''|'', CHR ''['', CHR '']'', CHR ''{'', CHR ''}'', CHR ''^'', CHR ''$'']"

definition plain :: "string \<Rightarrow> bool" where
  "plain s = list_all (\<lambda>c. c \<notin> set metachars) s"

fun starts_with :: "string \<Rightarrow> string \<Rightarrow> bool" where
  "starts_with [] s = True"
| "starts_with (p # ps) [] = False"
| "starts_with (p # ps) (c # cs) = (p = c \<and> starts_with ps cs)"

fun contains_text :: "string \<Rightarrow> string \<Rightarrow> bool" where
  "contains_text p [] = (p = [])"
| "contains_text p (c # cs) = (if starts_with p (c # cs) then True else contains_text p cs)"

text \<open>The first occurrence of \<open>p\<close> in the string makes way for \<open>v\<close>.\<close>

fun replace_first :: "string \<Rightarrow> string \<Rightarrow> string \<Rightarrow> string" where
  "replace_first p v [] = (if p = [] then v else [])"
| "replace_first p v (c # cs) =
     (if starts_with p (c # cs) then v @ drop (length p) (c # cs)
      else c # replace_first p v cs)"

fun split_on :: "char \<Rightarrow> string \<Rightarrow> string list" where
  "split_on d [] = [[]]"
| "split_on d (c # cs) =
     (if c = d then [] # split_on d cs
      else (case split_on d cs of [] \<Rightarrow> [[c]] | x # xs \<Rightarrow> (c # x) # xs))"

definition regex_contains :: "string \<Rightarrow> string \<Rightarrow> bool" where
  "regex_contains pattern s = list_ex (\<lambda>alt. contains_text alt s) (split_on (CHR ''|'') pattern)"

text \<open>A null has no match and no mismatch: the condition is null there.\<close>

definition str_contains_re ::
  "engine \<Rightarrow> string \<Rightarrow> ('f, 't) series \<Rightarrow> error + bool option list" where
  "str_contains_re re pattern s =
     (case str_values s of
        None \<Rightarrow> Inl SchemaError
      | Some vs \<Rightarrow>
          (case re pattern of
             Inl e \<Rightarrow> Inl e
           | Inr matches \<Rightarrow> Inr (map (map_option matches) vs)))"

text \<open>The engine on the patterns that are modelled.\<close>

definition plain_engine :: engine where
  "plain_engine pattern =
     (if list_all plain (split_on (CHR ''|'') pattern) then Inr (regex_contains pattern)
      else Inl OutsideModel)"

text \<open>
  A text \<open>p\<close> before the anchor \<open>$\<close> matches where the string ends with
  \<open>p\<close>, and nowhere else; the anchor alone matches the empty end of every string.
\<close>

definition ends_with :: "string \<Rightarrow> string \<Rightarrow> bool" where
  "ends_with p s = starts_with (rev p) (rev s)"

definition replace_at_end :: "string \<Rightarrow> string \<Rightarrow> string \<Rightarrow> string" where
  "replace_at_end p v s = (if ends_with p s then take (length s - length p) s @ v else s)"

definition str_replace :: "string \<Rightarrow> string \<Rightarrow> ('f, 't) series \<Rightarrow> error + string option list" where
  "str_replace pattern v s =
     (case str_values s of
        None \<Rightarrow> Inl SchemaError
      | Some vs \<Rightarrow>
          if plain pattern then Inr (map (map_option (replace_first pattern v)) vs)
          else if last pattern = CHR ''$'' \<and> plain (butlast pattern)
          then Inr (map (map_option (replace_at_end (butlast pattern) v)) vs)
          else Inl OutsideModel)"

text \<open>
  The two strict conversions of a string column. \<open>parse\<close> is the library's reading
  of one string; a null stays null, and one string that cannot be read makes the
  conversion fail.
\<close>

definition convert :: "(string \<Rightarrow> 'a option) \<Rightarrow> string option list \<Rightarrow> error + 'a option list" where
  "convert parse vs =
     (if list_all (\<lambda>v. case v of None \<Rightarrow> True | Some s \<Rightarrow> parse s \<noteq> None) vs
      then Inr (map (\<lambda>v. case v of None \<Rightarrow> None | Some s \<Rightarrow> parse s) vs)
      else Inl InvalidOperationError)"

definition cast_float64 ::
  "(string \<Rightarrow> 'f option) \<Rightarrow> string option list \<Rightarrow> error + ('f, 't) series" where
  "cast_float64 cast vs = (case convert cast vs of Inl e \<Rightarrow> Inl e | Inr xs \<Rightarrow> Inr (Float64 xs))"

definition str_to_datetime ::
  "(string \<Rightarrow> string \<Rightarrow> 't option) \<Rightarrow> string \<Rightarrow> ('f, 't) series \<Rightarrow> error + ('f, 't) series" where
  "str_to_datetime strptime date_format s =
     (case str_values s of
        None \<Rightarrow> Inl SchemaError
      | Some vs \<Rightarrow>
          (case convert (strptime date_format) vs of
             Inl e \<Rightarrow> Inl e
           | Inr xs \<Rightarrow> Inr (Datetime xs)))"

subsection \<open>Reading CSV\<close>

text \<open>
  \<^verbatim>\<open>pl.read_csv(source, infer_schema=False)\<close>. The library takes a source that is
  a \<^verbatim>\<open>str\<close> for the path of a file and opens that file; it reads the text of a
  source that is a stream. These are the two kinds of value \<^verbatim>\<open>run\<close> returns, so
  a source is a value of that type. The files are a parameter \<open>fs\<close>: it gives the
  content of the file at a path, or \<open>None\<close> when there is no such file.

  The text is comma separated, the first line is the header, every column is a string
  column, and an empty field is a missing value, that is null. Modelled are the texts
  without quotes and carriage returns whose lines are not blank and have as many fields
  as the header, under a header of pairwise different, non-empty names.
\<close>

type_synonym source = run_result

definition csv_lines :: "string \<Rightarrow> string list" where
  "csv_lines text =
     (let ls = split_on (CHR 0x0A) text in if last ls = [] then butlast ls else ls)"

definition csv_fields :: "string \<Rightarrow> string list list" where
  "csv_fields text = map (split_on (CHR '','')) (csv_lines text)"

definition csv_cell :: "string \<Rightarrow> string option" where
  "csv_cell s = (if s = [] then None else Some s)"

definition regular_csv :: "string \<Rightarrow> bool" where
  "regular_csv text =
     (CHR 0x22 \<notin> set text \<and> CHR 0x0D \<notin> set text \<and> [] \<notin> set (csv_lines text) \<and>
      (case csv_fields text of
         [] \<Rightarrow> True
       | header # records \<Rightarrow>
           [] \<notin> set header \<and> distinct header \<and>
           list_all (\<lambda>r. length r = length header) records))"

definition parse_csv :: "string \<Rightarrow> bool \<Rightarrow> error + ('f, 't) frame" where
  "parse_csv text infer_schema =
     (if infer_schema then Inl OutsideModel
      else if regular_csv text then
        (case csv_fields text of
           [] \<Rightarrow> Inl NoDataError
         | header # records \<Rightarrow>
             Inr (map (\<lambda>j. (header ! j, Utf8 (map (\<lambda>r. csv_cell (r ! j)) records)))
                    [0..<length header]))
      else Inl OutsideModel)"

definition read_csv ::
  "(string \<Rightarrow> string option) \<Rightarrow> source \<Rightarrow> bool \<Rightarrow> error + ('f, 't) frame" where
  "read_csv fs source infer_schema =
     (case source of
        Text path \<Rightarrow>
          (case fs path of
             None \<Rightarrow> Inl FileNotFoundError
           | Some text \<Rightarrow> parse_csv text infer_schema)
      | StringIO text \<Rightarrow> parse_csv text infer_schema)"

section \<open>The table helpers (hldataframe.py)\<close>

text \<open>
  \<^verbatim>\<open>self.__class__(...)\<close> only rewraps a table in the subclass and is the identity
  here. \<^verbatim>\<open>from_csv\<close> hands its argument to \<^verbatim>\<open>pl.read_csv\<close> as it is: a
  \<^verbatim>\<open>str\<close>, which the signature and the docstring ask for, or a stream, which
  \<^verbatim>\<open>run\<close> returns under an output format. The keyword arguments it would pass
  on are left at their defaults.
\<close>

definition from_csv ::
  "(string \<Rightarrow> string option) \<Rightarrow> source \<Rightarrow> bool \<Rightarrow> error + ('f, 't) frame" where
  "from_csv fs csv_text infer_schema = read_csv fs csv_text infer_schema"

text \<open>\<^verbatim>\<open>patterns: list[str] | str\<close> and \<^verbatim>\<open>"|".join(patterns)\<close>.\<close>

datatype patterns = Single string | Many "string list"

fun join :: "string \<Rightarrow> string list \<Rightarrow> string" where
  "join sep [] = []"
| "join sep [x] = x"
| "join sep (x # y # ys) = x @ sep @ join sep (y # ys)"

text \<open>
  Lines 92 to 101, with the library's regular expressions as the parameter \<open>re\<close>.
\<close>

definition filter_accounts_re ::
  "engine \<Rightarrow> patterns \<Rightarrow> string \<Rightarrow> bool \<Rightarrow> ('f, 't) frame \<Rightarrow> error + ('f, 't) frame" where
  "filter_accounts_re re patterns account_col exclude df =
     (let patterns = (case patterns of Single s \<Rightarrow> [s] | Many ps \<Rightarrow> ps);
          pattern = join ''|'' patterns
      in case get_column account_col df of
           Inl e \<Rightarrow> Inl e
         | Inr s \<Rightarrow>
             (case str_contains_re re pattern s of
                Inl e \<Rightarrow> Inl e
              | Inr condition \<Rightarrow>
                  (let condition = (if exclude then invert condition else condition)
                   in filter_df condition df)))"

text \<open>The same at the expressions that are modelled.\<close>

definition filter_accounts ::
  "patterns \<Rightarrow> string \<Rightarrow> bool \<Rightarrow> ('f, 't) frame \<Rightarrow> error + ('f, 't) frame" where
  "filter_accounts patterns account_col exclude df =
     filter_accounts_re plain_engine patterns account_col exclude df"

definition col_to_datetime ::
  "(string \<Rightarrow> string \<Rightarrow> 't option) \<Rightarrow> string \<Rightarrow> string \<Rightarrow> ('f, 't) frame \<Rightarrow>
   error + ('f, 't) frame" where
  "col_to_datetime strptime datecol_name date_format df =
     (case get_column datecol_name df of
        Inl e \<Rightarrow> Inl e
      | Inr s \<Rightarrow>
          (case str_to_datetime strptime date_format s of
             Inl e \<Rightarrow> Inl e
           | Inr s' \<Rightarrow> with_columns [(datecol_name, s')] df))"

text \<open>The defaults of \<^verbatim>\<open>col_to_datetime\<close>: the column \<open>date\<close>, the format \<open>%Y-%m\<close>.\<close>

definition col_to_datetime_default ::
  "(string \<Rightarrow> string \<Rightarrow> 't option) \<Rightarrow> ('f, 't) frame \<Rightarrow> error + ('f, 't) frame" where
  "col_to_datetime_default strptime df = col_to_datetime strptime ''date'' ''%Y-%m'' df"

text \<open>Lines 190 to 197 of \<^verbatim>\<open>transpose\<close>: the identifier column, given or detected.\<close>

definition auto_detect :: "string option \<Rightarrow> ('f, 't) frame \<Rightarrow> string option" where
  "auto_detect id_col df =
     (case id_col of
        Some c \<Rightarrow> Some c
      | None \<Rightarrow>
          if ''account'' \<in> set (columns df) \<or> ''Account'' \<in> set (columns df) then Some ''account''
          else if ''date'' \<in> set (columns df) then Some ''date''
          else None)"

text \<open>Line 200: a column \<open>Account\<close> is renamed to \<open>account\<close>.\<close>

definition normalize :: "('f, 't) frame \<Rightarrow> error + ('f, 't) frame" where
  "normalize df =
     (if ''Account'' \<in> set (columns df) then rename [(''Account'', ''account'')] df else Inr df)"

text \<open>
  \<^verbatim>\<open>df.drop(id_col)\<close> returns a table of the library's own class, so the
  \<^verbatim>\<open>transpose\<close> called on it in line 209 is the library's.
\<close>

definition transpose_df ::
  "string option \<Rightarrow> bool \<Rightarrow> bool \<Rightarrow> ('f, 't) frame \<Rightarrow> error + ('f, 't) frame" where
  "transpose_df id_col include_header auto_name df =
     (if \<not> auto_name then pl_transpose include_header df
      else case auto_detect id_col df of
        None \<Rightarrow> pl_transpose include_header df
      | Some id_col \<Rightarrow>
          (case normalize df of
             Inl e \<Rightarrow> Inl e
           | Inr df1 \<Rightarrow>
               (case get_column id_col df1 of
                  Inl e \<Rightarrow> Inl e
                | Inr s \<Rightarrow>
                    (let id_values = to_list s;
                         new_id_col = (if id_col = ''account'' then ''date'' else ''account'')
                     in (case drop_col id_col df1 of
                           Inl e \<Rightarrow> Inl e
                         | Inr df2 \<Rightarrow>
                             (case pl_transpose include_header df2 of
                                Inl e \<Rightarrow> Inl e
                              | Inr df_transposed \<Rightarrow>
                                  set_columns (PyStr new_id_col # id_values) df_transposed))))))"

text \<open>
  The expression \<^verbatim>\<open>pl.col(col).str.replace(currency_symbol, "").cast(pl.Float64)\<close>,
  evaluated on a table.
\<close>

definition currency_expr ::
  "(string \<Rightarrow> 'f option) \<Rightarrow> string \<Rightarrow> string \<Rightarrow> ('f, 't) frame \<Rightarrow>
   error + (string \<times> ('f, 't) series)" where
  "currency_expr cast currency_symbol col df =
     (case get_column col df of
        Inl e \<Rightarrow> Inl e
      | Inr s \<Rightarrow>
          (case str_replace currency_symbol [] s of
             Inl e \<Rightarrow> Inl e
           | Inr vs \<Rightarrow>
               (case cast_float64 cast vs of Inl e \<Rightarrow> Inl e | Inr s' \<Rightarrow> Inr (col, s'))))"

text \<open>
  \<^verbatim>\<open>preserve_cols\<close> and \<^verbatim>\<open>change_cols\<close> are sets; a set is given as the list
  of its elements in the order the comprehension meets them, \<open>None\<close> is the default.
\<close>

definition currency_to_number ::
  "(string \<Rightarrow> 'f option) \<Rightarrow> string \<Rightarrow> string list option \<Rightarrow> string list option \<Rightarrow>
   ('f, 't) frame \<Rightarrow> error + ('f, 't) frame" where
  "currency_to_number cast currency_symbol preserve_cols change_cols df =
     (let change_cols = (case change_cols of None \<Rightarrow> columns df | Some cs \<Rightarrow> cs);
          preserve_cols = (case preserve_cols of None \<Rightarrow> [] | Some ps \<Rightarrow> ps)
      in case sequence (map (\<lambda>col. currency_expr cast currency_symbol col df)
                          (filter (\<lambda>col. col \<notin> set preserve_cols) change_cols)) of
           Inl e \<Rightarrow> Inl e
         | Inr new \<Rightarrow> with_columns new df)"

text \<open>The default currency symbol, the pound sign, in UTF-8.\<close>

definition pound :: string where
  "pound = [CHR 0xC2, CHR 0xA3]"

section \<open>The words of the claims and the tables of the examples\<close>

text \<open>
  A value of the account column, as Python sees it, against the test of an expression:
  the condition the library computes for it, whether it matches, and whether it is a
  string that does not match. A null does neither.
\<close>

fun account_condition :: "(string \<Rightarrow> bool) \<Rightarrow> ('f, 't) pyval \<Rightarrow> bool option" where
  "account_condition matches (PyStr s) = Some (matches s)"
| "account_condition matches _ = None"

fun account_matches :: "(string \<Rightarrow> bool) \<Rightarrow> ('f, 't) pyval \<Rightarrow> bool" where
  "account_matches matches (PyStr s) = matches s"
| "account_matches matches _ = False"

fun account_differs :: "(string \<Rightarrow> bool) \<Rightarrow> ('f, 't) pyval \<Rightarrow> bool" where
  "account_differs matches (PyStr s) = (\<not> matches s)"
| "account_differs matches _ = False"

text \<open>
  The examples take the rational numbers for the floats, which holds every value they
  use exactly, and the integers for the datetimes.
\<close>

definition ledger :: "(rat, int) frame" where
  "ledger = [(''account'', Utf8 [Some ''a:x'', Some ''c'', Some ''b'']),
             (''amount'', Utf8 [Some ''1'', Some ''2'', None])]"

definition ledger_kept :: "(rat, int) frame" where
  "ledger_kept = [(''account'', Utf8 [Some ''a:x'', Some ''b'']),
                  (''amount'', Utf8 [Some ''1'', None])]"

definition gappy :: "(rat, int) frame" where
  "gappy = [(''account'', Utf8 [Some ''a'', None])]"

definition gappy_kept :: "(rat, int) frame" where
  "gappy_kept = [(''account'', Utf8 [Some ''a''])]"

definition gappy_dropped :: "(rat, int) frame" where
  "gappy_dropped = [(''account'', Utf8 [])]"

definition platform :: "(rat, int) frame" where
  "platform = [(''account'', Utf8 [Some ''assets'', Some ''equity'']),
               (''amount'', Utf8 [Some ''1'', None])]"

definition capital :: "(rat, int) frame" where
  "capital = [(''Account'', Utf8 [Some ''assets'']), (''2024-01'', Utf8 [Some ''1''])]"

definition both_cases :: "(rat, int) frame" where
  "both_cases = [(''Account'', Utf8 [Some ''assets'']), (''account'', Utf8 [Some ''equity''])]"

text \<open>
  A string column conforms to a conversion when the library's parser reads every value
  of it that is not null; \<open>parsed\<close> is then the column of the values read.
\<close>

definition conforms :: "(string \<Rightarrow> 'a option) \<Rightarrow> string option list \<Rightarrow> bool" where
  "conforms parse vs = list_all (\<lambda>v. case v of None \<Rightarrow> True | Some s \<Rightarrow> parse s \<noteq> None) vs"

definition parsed :: "(string \<Rightarrow> 'a option) \<Rightarrow> string option list \<Rightarrow> 'a option list" where
  "parsed parse vs = map (\<lambda>v. case v of None \<Rightarrow> None | Some s \<Rightarrow> parse s) vs"

text \<open>
  A parser for the examples of the date conversion: it knows one format and one day, as
  microseconds since the epoch.
\<close>

definition day_parser :: "string \<Rightarrow> string \<Rightarrow> int option" where
  "day_parser date_format s =
     (if date_format = ''%Y-%m-%d'' \<and> s = ''2024-01-15'' then Some 1705276800000000 else None)"

definition dated :: "(rat, int) frame" where
  "dated = [(''date'', Utf8 [Some ''2024-01-15'', None]), (''amount'', Utf8 [Some ''1'', Some ''2''])]"

definition misdated :: "(rat, int) frame" where
  "misdated = [(''date'', Utf8 [Some ''2024-01-15'', Some ''soon'']),
               (''amount'', Utf8 [Some ''1'', Some ''2''])]"

text \<open>
  A cast for the examples: it reads a plain decimal literal, with an optional sign and an
  optional fraction, as the rational number it denotes, and nothing else.
\<close>

fun digit_value :: "char \<Rightarrow> nat option" where
  "digit_value c =
     (let n = (of_char c :: nat) in if 48 \<le> n \<and> n \<le> 57 then Some (n - 48) else None)"

fun digits_value :: "string \<Rightarrow> nat \<Rightarrow> nat option" where
  "digits_value [] acc = Some acc"
| "digits_value (c # cs) acc =
     (case digit_value c of None \<Rightarrow> None | Some d \<Rightarrow> digits_value cs (10 * acc + d))"

definition decimal_cast :: "string \<Rightarrow> rat option" where
  "decimal_cast s =
     (let negative = (case s of [] \<Rightarrow> False | c # _ \<Rightarrow> c = CHR ''-'');
          body = (case s of [] \<Rightarrow> [] | c # cs \<Rightarrow> if c = CHR ''-'' \<or> c = CHR ''+'' then cs else s);
          whole = takeWhile (\<lambda>c. c \<noteq> CHR ''.'') body;
          frac = drop 1 (dropWhile (\<lambda>c. c \<noteq> CHR ''.'') body)
      in if whole = [] \<and> frac = [] then None
         else (case digits_value (whole @ frac) 0 of
                 None \<Rightarrow> None
               | Some n \<Rightarrow> Some ((if negative then - 1 else 1) * (of_nat n / 10 ^ length frac))))"

definition statement :: "(rat, int) frame" where
  "statement = [(''date'', Utf8 [Some ''2024-01'']), (''amount'', Utf8 [Some (pound @ ''100.50'')])]"

definition doubled :: "(rat, int) frame" where
  "doubled = [(''amount'', Utf8 [Some (pound @ pound @ ''5'')])]"

definition dollars :: "(rat, int) frame" where
  "dollars = [(''amount'', Utf8 [Some ''$100''])]"

text \<open>The CSV text of the specification's example and the table it loads to.\<close>

definition balance_csv :: string where
  "balance_csv = ''account,2024-01,2024-02'' @ [CHR 0x0A]
                 @ ''expenses:food,'' @ pound @ ''100,'' @ pound @ ''150'' @ [CHR 0x0A]"



text \<open>
  The words of the transpose claim: the name of the new first column is the opposite of
  the identifier's, and the remaining columns are the table without the identifier.
\<close>

definition opposite :: "string \<Rightarrow> string" where
  "opposite id_col = (if id_col = ''account'' then ''date'' else ''account'')"

definition without :: "string \<Rightarrow> ('f, 't) frame \<Rightarrow> ('f, 't) frame" where
  "without id_col df = filter (\<lambda>c. fst c \<noteq> id_col) df"



section \<open>Properties of the command builder\<close>

lemma fold_append_each: "fold (\<lambda>x acc. acc @ [f x]) xs ys = ys @ map f xs"
  by (induction xs arbitrary: ys) simp_all

lemma append_flag:
  "(if truthy v then fc @ [pre @ val v] else fc) = fc @ flag pre v"
  by (simp add: truthy_def val_def flag_def split: option.splits)

lemma append_listed:
  "(if truthy v then fold (\<lambda>x acc. acc @ [f x]) (val v) fc else fc) = fc @ map f (listed v)"
  by (simp add: truthy_def val_def listed_def fold_append_each split: option.splits)

lemma append_listed_id:
  "(if truthy v then fold (\<lambda>x acc. acc @ [x]) (val v) fc else fc) = fc @ listed v"
  using append_listed [of v "\<lambda>x. x" fc] by simp

text \<open>
  C1. For every choice of constructor options and of the parameters of \<open>run\<close>, the
  argument list the source builds is the list of section 4.1: the executable, the
  subcommand, then \<open>--file=\<close>, \<open>--period=\<close>, \<open>--begin=\<close>, \<open>--end=\<close>, the bare
  periodic flag and \<open>--output-format=\<close>, each present exactly when its option is
  configured, then the global extra options, the extra options of the call, the accounts
  as they are and the ignored accounts behind \<open>not:\<close>, each list in its order. With
  the file \<open>ledger.journal\<close> configured, \<open>run("balance", accounts=["assets"],
  ignore=["equity"])\<close> builds \<open>hledger balance --file=ledger.journal assets
  not:equity\<close>.
\<close>

theorem full_command_order:
  "full_command self subcommand accounts ignore extra_options
     = argument_order self subcommand accounts ignore extra_options
   \<and> full_command (init (Some ''ledger.journal'') None None None None None None)
        ''balance'' (Some [''assets'']) (Some [''equity'']) None
     = [''hledger'', ''balance'', ''--file=ledger.journal'', ''assets'', ''not:equity'']"
proof
  show "full_command self subcommand accounts ignore extra_options
          = argument_order self subcommand accounts ignore extra_options"
    unfolding full_command_def argument_order_def Let_def
    by (simp add: append_flag append_listed_id append_listed)
next
  show "full_command (init (Some ''ledger.journal'') None None None None None None)
          ''balance'' (Some [''assets'']) (Some [''equity'']) None
        = [''hledger'', ''balance'', ''--file=ledger.journal'', ''assets'', ''not:equity'']"
    by (simp add: full_command_def init_def truthy_def val_def)
qed

text \<open>
  C4. Once the external process has run and answered \<open>result\<close>: a non-zero exit status
  makes \<open>run\<close> fail with the error that carries the exit status and the captured
  standard error, and nothing is returned; an exit status of zero makes \<open>run\<close> return
  the captured standard output, as a text stream over that text when an output format is
  configured and as the text itself when none is. The process is started once.
\<close>

theorem run_result_by_exit_status:
  assumes "os (full_command self subcommand accounts ignore extra_options) = Some result"
  shows "(returncode result \<noteq> 0 \<longrightarrow>
            run os self subcommand accounts ignore extra_options
              = Inl (CalledProcessError (returncode result)
                       (full_command self subcommand accounts ignore extra_options)
                       (stdout result) (stderr result)))
       \<and> (returncode result = 0 \<longrightarrow>
            run os self subcommand accounts ignore extra_options
              = Inr (if truthy (output_format self) then StringIO (stdout result)
                     else Text (stdout result)))
       \<and> (returncode result = 0 \<longrightarrow>
            ((\<exists>s. run os self subcommand accounts ignore extra_options = Inr (StringIO s))
               \<longleftrightarrow> truthy (output_format self)))"
  using assms by (simp add: run_def subprocess_run_def)

theorem run_result_by_exit_status_witness:
  "run (\<lambda>args. Some \<lparr>returncode = 0, stdout = ''a,b'', stderr = ''''\<rparr>)
       (init None None None None None (Some ''csv'') None) ''balance'' None None None
     = Inr (StringIO ''a,b'')
   \<and> run (\<lambda>args. Some \<lparr>returncode = 0, stdout = ''a,b'', stderr = ''''\<rparr>)
       (init None None None None None None None) ''balance'' None None None
     = Inr (Text ''a,b'')
   \<and> run (\<lambda>args. Some \<lparr>returncode = 1, stdout = ''a'', stderr = ''no file''\<rparr>)
       (init None None None None None (Some ''csv'') None) ''balance'' None None None
     = Inl (CalledProcessError 1 [''hledger'', ''balance'', ''--output-format=csv''] ''a'' ''no file'')"
  using
    run_result_by_exit_status [of "\<lambda>args. Some \<lparr>returncode = 0, stdout = ''a,b'', stderr = ''''\<rparr>"
      "init None None None None None (Some ''csv'') None" "''balance''" None None None
      "\<lparr>returncode = 0, stdout = ''a,b'', stderr = ''''\<rparr>"]
    run_result_by_exit_status [of "\<lambda>args. Some \<lparr>returncode = 0, stdout = ''a,b'', stderr = ''''\<rparr>"
      "init None None None None None None None" "''balance''" None None None
      "\<lparr>returncode = 0, stdout = ''a,b'', stderr = ''''\<rparr>"]
    run_result_by_exit_status [of "\<lambda>args. Some \<lparr>returncode = 1, stdout = ''a'', stderr = ''no file''\<rparr>"
      "init None None None None None (Some ''csv'') None" "''balance''" None None None
      "\<lparr>returncode = 1, stdout = ''a'', stderr = ''no file''\<rparr>"]
  by (simp add: init_def truthy_def val_def full_command_def)

section \<open>Properties of the table helpers\<close>

subsection \<open>Rows and filters\<close>

lemma wf_frame_len:
  "wf_frame df \<Longrightarrow> map_of df name = Some s \<Longrightarrow> series_len s = height df"
  by (auto simp: wf_frame_def list_all_iff dest!: map_of_SomeD)

lemma get_column_Inr: "get_column name df = Inr s \<longleftrightarrow> map_of df name = Some s"
  by (simp add: get_column_def split: option.splits)

lemma mask_filter_map: "mask_filter m (map f xs) = map f (mask_filter m xs)"
  by (induction m xs rule: mask_filter.induct) simp_all

lemma to_list_filter_series: "to_list (filter_series m s) = mask_filter m (to_list s)"
  by (cases s) (simp_all add: mask_filter_map)

lemma mask_filter_zip:
  "mask_filter m (zip xs ys) = zip (mask_filter m xs) (mask_filter m ys)"
proof (induction m arbitrary: xs ys)
  case Nil
  then show ?case by simp
next
  case (Cons b m)
  then show ?case by (cases xs; cases ys) simp_all
qed

lemma mask_filter_map2:
  "mask_filter m (map2 f xs ys) = map2 f (mask_filter m xs) (mask_filter m ys)"
  by (simp add: mask_filter_map mask_filter_zip)

lemma mask_filter_length:
  "length xs = length m \<Longrightarrow>
   length (mask_filter m xs) = length (filter (\<lambda>b. b = Some True) m)"
  by (induction xs m rule: list_induct2) simp_all

lemma mask_filter_replicate:
  "mask_filter m (replicate (length m) x) = replicate (length (filter (\<lambda>b. b = Some True) m)) x"
  by (induction m) simp_all

lemma zip_rows_filter:
  "list_all (\<lambda>c. length c = length m) cs \<Longrightarrow>
   zip_rows (length (filter (\<lambda>b. b = Some True) m)) (map (mask_filter m) cs)
     = mask_filter m (zip_rows (length m) cs)"
  by (induction cs) (simp_all add: mask_filter_replicate mask_filter_map2)

lemma length_zip_rows:
  "list_all (\<lambda>c. length c = h) cs \<Longrightarrow> length (zip_rows h cs) = h"
  by (induction cs) simp_all

lemma length_to_list [simp]: "length (to_list s) = series_len s"
  by (cases s) simp_all

lemma series_len_filter: "series_len (filter_series m s) = length (mask_filter m (to_list s))"
  by (cases s) (simp_all add: mask_filter_map)

lemma rows_filter:
  assumes "wf_frame df" "df \<noteq> []" "length m = height df"
  shows "rows (map (\<lambda>c. (fst c, filter_series m (snd c))) df) = mask_filter m (rows df)"
proof -
  obtain c cs where df: "df = c # cs" using assms(2) by (cases df) auto
  have all: "list_all (\<lambda>c. length c = length m) (map (\<lambda>c. to_list (snd c)) df)"
    using assms(1,3) by (simp add: wf_frame_def list_all_iff)
  have h: "height (map (\<lambda>c. (fst c, filter_series m (snd c))) df) = length (filter (\<lambda>b. b = Some True) m)"
    using assms(3) by (simp add: df height_def series_len_filter mask_filter_length)
  have cols: "map (\<lambda>c. to_list (snd c)) (map (\<lambda>c. (fst c, filter_series m (snd c))) df)
                = map (mask_filter m) (map (\<lambda>c. to_list (snd c)) df)"
    by (simp add: to_list_filter_series)
  show ?thesis
    unfolding rows_def h cols assms(3) [symmetric] by (rule zip_rows_filter [OF all])
qed

lemma nth_zip_rows_0:
  "length c = length rs \<Longrightarrow> map ((\<lambda>r. r ! 0) \<circ> (\<lambda>(x, y). x # y)) (zip c rs) = c"
  by (induction c rs rule: list_induct2) simp_all

lemma nth_zip_rows_Suc:
  "length c = length rs \<Longrightarrow>
   map ((\<lambda>r. r ! Suc k) \<circ> (\<lambda>(x, y). x # y)) (zip c rs) = map (\<lambda>r. r ! k) rs"
  by (induction c rs rule: list_induct2) simp_all

lemma column_of_zip_rows:
  "list_all (\<lambda>c. length c = h) cs \<Longrightarrow> k < length cs \<Longrightarrow> map (\<lambda>r. r ! k) (zip_rows h cs) = cs ! k"
proof (induction cs arbitrary: k)
  case Nil
  then show ?case by simp
next
  case (Cons c cs)
  then show ?case
    by (cases k) (simp_all add: nth_zip_rows_0 nth_zip_rows_Suc length_zip_rows)
qed

lemma column_of_rows:
  assumes "wf_frame df" "map_of df name = Some s"
  shows "\<exists>k. map (\<lambda>r. r ! k) (rows df) = to_list s"
proof -
  from assms(2) have "(name, s) \<in> set df" by (rule map_of_SomeD)
  then obtain k where k: "k < length df" "df ! k = (name, s)"
    by (auto simp: in_set_conv_nth)
  have all: "list_all (\<lambda>c. length c = height df) (map (\<lambda>c. to_list (snd c)) df)"
    using assms(1) by (simp add: wf_frame_def list_all_iff)
  have "map (\<lambda>r. r ! k) (rows df) = map (\<lambda>c. to_list (snd c)) df ! k"
    unfolding rows_def by (rule column_of_zip_rows [OF all]) (simp add: k(1))
  also have "\<dots> = to_list s" using k by simp
  finally show ?thesis by blast
qed

lemma condition_of_rows:
  fixes rs :: "('f, 't) pyval list list"
  assumes "map (\<lambda>r. r ! k) rs = to_list (Utf8 vs)"
  shows "map (map_option matches) vs = map (\<lambda>r. account_condition matches (r ! k)) rs"
proof -
  have "map (map_option matches) vs
          = map (account_condition matches) (to_list (Utf8 vs :: ('f, 't) series))"
    by (induction vs) (auto split: option.splits)
  also have "\<dots> = map (\<lambda>r. account_condition matches (r ! k)) rs"
    unfolding assms [symmetric] by (simp add: comp_def)
  finally show ?thesis .
qed

lemma mask_filter_condition:
  "mask_filter (map f xs) xs = filter (\<lambda>x. f x = Some True) xs"
  by (induction xs) simp_all

lemma mask_filter_invert:
  "mask_filter (invert (map f xs)) xs = filter (\<lambda>x. f x = Some False) xs"
  by (induction xs) (auto simp: invert_def)

lemma length_invert [simp]: "length (invert m) = length m"
  by (simp add: invert_def)

lemma account_condition_True:
  "account_condition matches v = Some True \<longleftrightarrow> account_matches matches v"
  by (cases v) simp_all

lemma account_condition_False:
  "account_condition matches v = Some False \<longleftrightarrow> account_differs matches v"
  by (cases v) simp_all

lemma account_null:
  "\<not> account_matches matches v \<and> \<not> account_differs matches v \<longleftrightarrow> (\<forall>s. v \<noteq> PyStr s)"
  by (cases v) auto

lemma filter_accounts_re_Inr:
  assumes "filter_accounts_re re patterns account_col exclude df = Inr result"
  shows "\<exists>vs matches.
           get_column account_col df = Inr (Utf8 vs)
         \<and> re (join ''|'' (case patterns of Single s \<Rightarrow> [s] | Many ps \<Rightarrow> ps)) = Inr matches
         \<and> length vs = height df"
proof -
  from assms obtain s where s: "get_column account_col df = Inr s"
    by (auto simp: filter_accounts_re_def Let_def split: sum.splits)
  from assms s obtain vs where vs: "s = Utf8 vs"
    by (cases s) (auto simp: filter_accounts_re_def Let_def str_contains_re_def)
  from assms show ?thesis
    unfolding filter_accounts_re_def Let_def s vs
    by (auto simp: str_contains_re_def filter_df_def invert_def split: sum.splits if_splits)
qed

text \<open>
  C6, as amended. Take any regular expressions for the library's and a table: when
  \<open>filter_accounts(patterns)\<close> returns a table, the account column is a string
  column, and \<open>filter_accounts(patterns, exclude=True)\<close> returns a table too. The
  first holds the rows of the input whose account matches, the second the rows whose
  account is a string that does not match, each in the input's order. As sets of rows
  the two are disjoint, and their union is the set of the rows of the input whose account
  is not null: a row with a null account is in neither, and when the column has no null
  the union is the set of all rows.
\<close>

theorem filter_accounts_partition:
  assumes "wf_frame df"
    and "filter_accounts_re re patterns account_col False df = Inr kept"
  shows "\<exists>dropped vs k matches.
           get_column account_col df = Inr (Utf8 vs)
         \<and> re (join ''|'' (case patterns of Single s \<Rightarrow> [s] | Many ps \<Rightarrow> ps)) = Inr matches
         \<and> map (\<lambda>r. r ! k) (rows df) = to_list (Utf8 vs)
         \<and> filter_accounts_re re patterns account_col True df = Inr dropped
         \<and> rows kept = filter (\<lambda>r. account_matches matches (r ! k)) (rows df)
         \<and> rows dropped = filter (\<lambda>r. account_differs matches (r ! k)) (rows df)
         \<and> set (rows kept) \<inter> set (rows dropped) = {}
         \<and> set (rows kept) \<union> set (rows dropped) = {r \<in> set (rows df). r ! k \<noteq> PyNone}
         \<and> (list_all (\<lambda>v. v \<noteq> None) vs \<longrightarrow>
               set (rows kept) \<union> set (rows dropped) = set (rows df))"
proof -
  define pattern where
    "pattern = join ''|'' (case patterns of Single s \<Rightarrow> [s] | Many ps \<Rightarrow> ps)"
  from filter_accounts_re_Inr [OF assms(2)] obtain vs matches
    where g: "get_column account_col df = Inr (Utf8 vs)"
      and re: "re pattern = Inr matches"
      and len: "length vs = height df"
    unfolding pattern_def by blast
  define cond where "cond = map (map_option matches) vs"
  from g have m: "map_of df account_col = Some (Utf8 vs)"
    by (simp add: get_column_Inr)
  then have ne: "df \<noteq> []" by auto
  have sc: "str_contains_re re pattern (Utf8 vs) = (Inr cond :: error + bool option list)"
    by (simp add: str_contains_re_def re cond_def)
  have lc: "length cond = height df" by (simp add: cond_def len)
  from column_of_rows [OF assms(1) m] obtain k
    where k: "map (\<lambda>r. r ! k) (rows df) = to_list (Utf8 vs)" by blast
  have cond_rows: "cond = map (\<lambda>r. account_condition matches (r ! k)) (rows df)"
    unfolding cond_def by (rule condition_of_rows [OF k])
  have kept: "kept = map (\<lambda>c. (fst c, filter_series cond (snd c))) df"
    using assms(2) unfolding filter_accounts_re_def Let_def pattern_def [symmetric]
    by (simp add: g sc filter_df_def lc)
  define dropped where "dropped = map (\<lambda>c. (fst c, filter_series (invert cond) (snd c))) df"
  have d: "filter_accounts_re re patterns account_col True df = Inr dropped"
    unfolding filter_accounts_re_def Let_def pattern_def [symmetric]
    by (simp add: g sc filter_df_def lc dropped_def)
  have rk: "rows kept = filter (\<lambda>r. account_matches matches (r ! k)) (rows df)"
    unfolding kept using rows_filter [OF assms(1) ne lc]
    by (simp add: cond_rows mask_filter_condition account_condition_True)
  have rd: "rows dropped = filter (\<lambda>r. account_differs matches (r ! k)) (rows df)"
    unfolding dropped_def using rows_filter [OF assms(1) ne, of "invert cond"] lc
    by (simp add: cond_rows mask_filter_invert account_condition_False)
  have cell: "r ! k = PyNone \<or> (\<exists>s. r ! k = PyStr s)" if "r \<in> set (rows df)" for r
  proof -
    from that have "r ! k \<in> set (map (\<lambda>r. r ! k) (rows df))" by simp
    then have "r ! k \<in> set (to_list (Utf8 vs))" by (simp only: k)
    then show ?thesis by (auto split: option.splits)
  qed
  have dis: "set (rows kept) \<inter> set (rows dropped) = {}"
  proof -
    have "\<not> (account_matches matches v \<and> account_differs matches v)" for v :: "('a, 'b) pyval"
      by (cases v) simp_all
    then show ?thesis unfolding rk rd by auto
  qed
  have un: "set (rows kept) \<union> set (rows dropped) = {r \<in> set (rows df). r ! k \<noteq> PyNone}"
  proof -
    have "account_matches matches (r ! k) \<or> account_differs matches (r ! k) \<longleftrightarrow> r ! k \<noteq> PyNone"
      if "r \<in> set (rows df)" for r
      using cell [OF that] by auto
    then show ?thesis unfolding rk rd by auto
  qed
  have full: "set (rows kept) \<union> set (rows dropped) = set (rows df)"
    if nn: "list_all (\<lambda>v. v \<noteq> None) vs"
  proof -
    have "PyNone \<notin> set (to_list (Utf8 vs))"
      using nn by (auto simp: list_all_iff split: option.splits)
    then have "r ! k \<noteq> PyNone" if "r \<in> set (rows df)" for r
      using that k by (metis (no_types, lifting) image_eqI list.set_map)
    then show ?thesis unfolding un by auto
  qed
  from g re k d rk rd dis un full show ?thesis
    unfolding pattern_def by blast
qed

theorem filter_accounts_partition_witness:
  "wf_frame ledger
   \<and> filter_accounts_re plain_engine (Many [''a'', ''b'']) ''account'' False ledger = Inr ledger_kept
   \<and> (\<exists>dropped vs k matches.
        get_column ''account'' ledger = Inr (Utf8 vs)
      \<and> filter_accounts_re plain_engine (Many [''a'', ''b'']) ''account'' True ledger = Inr dropped
      \<and> rows ledger_kept = filter (\<lambda>r. account_matches matches (r ! k)) (rows ledger)
      \<and> rows dropped = filter (\<lambda>r. account_differs matches (r ! k)) (rows ledger)
      \<and> set (rows ledger_kept) \<inter> set (rows dropped) = {}
      \<and> set (rows ledger_kept) \<union> set (rows dropped) = {r \<in> set (rows ledger). r ! k \<noteq> PyNone})"
proof -
  have wf: "wf_frame ledger" by (simp add: ledger_def wf_frame_def columns_def height_def)
  have k: "filter_accounts_re plain_engine (Many [''a'', ''b'']) ''account'' False ledger
             = Inr ledger_kept"
    by (simp add: ledger_def ledger_kept_def filter_accounts_re_def get_column_def
        str_contains_re_def plain_engine_def plain_def metachars_def regex_contains_def
        filter_df_def height_def)
  from filter_accounts_partition [OF wf k]
  have "\<exists>dropped vs k matches.
        get_column ''account'' ledger = Inr (Utf8 vs)
      \<and> filter_accounts_re plain_engine (Many [''a'', ''b'']) ''account'' True ledger = Inr dropped
      \<and> rows ledger_kept = filter (\<lambda>r. account_matches matches (r ! k)) (rows ledger)
      \<and> rows dropped = filter (\<lambda>r. account_differs matches (r ! k)) (rows ledger)
      \<and> set (rows ledger_kept) \<inter> set (rows dropped) = {}
      \<and> set (rows ledger_kept) \<union> set (rows dropped) = {r \<in> set (rows ledger). r ! k \<noteq> PyNone}"
    by blast
  with wf k show ?thesis by (intro conjI)
qed

text \<open>
  The claim as it stands, that the union is the full set of rows of every table, fails on
  a null account: the row is dropped by both calls, since a null is neither a match nor,
  negated, a mismatch. The table has the rows \<open>a\<close> and null; with the patterns
  \<open>a\<close> and \<open>b\<close> the first call keeps the row \<open>a\<close>, the second keeps
  nothing, and the null row is in neither.
\<close>

theorem filter_accounts_null_counterexample:
  "filter_accounts (Many [''a'', ''b'']) ''account'' False gappy = Inr gappy_kept
   \<and> filter_accounts (Many [''a'', ''b'']) ''account'' True gappy = Inr gappy_dropped
   \<and> rows gappy = [[PyStr ''a''], [PyNone]]
   \<and> rows gappy_kept = [[PyStr ''a'']]
   \<and> rows gappy_dropped = []
   \<and> set (rows gappy_kept) \<union> set (rows gappy_dropped) \<noteq> set (rows gappy)"
proof -
  have k: "filter_accounts (Many [''a'', ''b'']) ''account'' False gappy = Inr gappy_kept"
    by (simp add: gappy_def gappy_kept_def filter_accounts_def filter_accounts_re_def
        get_column_def str_contains_re_def plain_engine_def plain_def metachars_def
        regex_contains_def filter_df_def height_def)
  have d: "filter_accounts (Many [''a'', ''b'']) ''account'' True gappy = Inr gappy_dropped"
    by (simp add: gappy_def gappy_dropped_def filter_accounts_def filter_accounts_re_def
        get_column_def str_contains_re_def plain_engine_def plain_def metachars_def
        regex_contains_def filter_df_def height_def invert_def)
  have r: "rows gappy = [[PyStr ''a''], [PyNone]]"
    by (simp add: gappy_def rows_def height_def numeral_2_eq_2)
  have rk: "rows gappy_kept = [[PyStr ''a'']]"
    by (simp add: gappy_kept_def rows_def height_def)
  have rd: "rows gappy_dropped = []"
    by (simp add: gappy_dropped_def rows_def height_def)
  have "set (rows gappy_kept) \<union> set (rows gappy_dropped) \<noteq> set (rows gappy)"
    unfolding r rk rd by simp
  with k d r rk rd show ?thesis by (intro conjI)
qed

subsection \<open>No patterns\<close>

lemma contains_text_empty [simp]: "contains_text [] s"
  by (cases s) simp_all

lemma regex_contains_empty: "regex_contains [] s"
  by (simp add: regex_contains_def)

lemma mask_filter_all_true:
  "length xs = length vs \<Longrightarrow> mask_filter (map (\<lambda>v. Some True) vs) xs = xs"
  by (induction xs vs rule: list_induct2) simp_all

lemma mask_filter_all_false:
  "mask_filter (map (\<lambda>v. Some False) vs) xs = []"
  by (induction "map (\<lambda>v. Some False) vs" xs arbitrary: vs rule: mask_filter.induct) auto

lemma filter_series_all_true:
  "series_len s = length vs \<Longrightarrow> filter_series (map (\<lambda>v. Some True) vs) s = s"
  by (cases s) (simp_all add: mask_filter_all_true)

lemma series_len_all_false:
  "series_len (filter_series (map (\<lambda>v. Some False) vs) s) = 0"
  by (cases s) (simp_all add: mask_filter_all_false)

text \<open>
  C10. On a table whose account column is a string column without nulls, an empty list of
  patterns is joined into the empty pattern, which matches every account: without
  \<open>exclude\<close> the result is the input table itself, with \<open>exclude\<close> it is the
  table of the same columns without any row.
\<close>

theorem filter_accounts_no_patterns:
  assumes "wf_frame df"
    and "get_column account_col df = Inr (Utf8 vs)"
    and "list_all (\<lambda>v. v \<noteq> None) vs"
  shows "join ''|'' [] = []
       \<and> filter_accounts (Many []) account_col False df = Inr df
       \<and> (\<exists>df'. filter_accounts (Many []) account_col True df = Inr df'
              \<and> columns df' = columns df \<and> height df' = 0 \<and> rows df' = [])"
proof -
  from assms(2) have m: "map_of df account_col = Some (Utf8 vs)"
    by (simp add: get_column_Inr)
  then have ne: "df \<noteq> []" by auto
  have len: "length vs = height df"
    using wf_frame_len [OF assms(1) m] by simp
  have all: "\<forall>c \<in> set df. series_len (snd c) = length vs"
    using assms(1) len by (simp add: wf_frame_def list_all_iff)
  have cond: "map (map_option (regex_contains [])) vs = map (\<lambda>v. Some True) vs"
    using assms(3) by (induction vs) (auto simp: regex_contains_empty)
  have sc: "str_contains_re plain_engine [] (Utf8 vs)
              = (Inr (map (\<lambda>v. Some True) vs) :: error + bool option list)"
    by (simp add: str_contains_re_def plain_engine_def cond plain_def)
  have inv: "invert (map (\<lambda>v. Some True) vs) = map (\<lambda>v. Some False) vs"
    by (simp add: invert_def)
  have same: "map (\<lambda>c. (fst c, filter_series (map (\<lambda>v. Some True) vs) (snd c))) df = df"
    using all by (simp add: filter_series_all_true map_idI)
  have keep: "filter_accounts (Many []) account_col False df = Inr df"
    by (simp add: filter_accounts_def filter_accounts_re_def assms(2) sc filter_df_def len same)
  define df' where "df' = map (\<lambda>c. (fst c, filter_series (map (\<lambda>v. Some False) vs) (snd c))) df"
  have drop: "filter_accounts (Many []) account_col True df = Inr df'"
    by (simp add: filter_accounts_def filter_accounts_re_def assms(2) sc inv filter_df_def len
        df'_def)
  have c: "columns df' = columns df" by (simp add: df'_def columns_def comp_def)
  have h: "height df' = 0"
    using ne by (cases df) (simp_all add: df'_def height_def series_len_all_false)
  have "rows df' = mask_filter (map (\<lambda>v. Some False) vs) (rows df)"
    unfolding df'_def by (rule rows_filter [OF assms(1) ne]) (simp add: len)
  then have r: "rows df' = []" by (simp add: mask_filter_all_false)
  from keep drop c h r show ?thesis by simp
qed

theorem filter_accounts_no_patterns_witness:
  "wf_frame platform
   \<and> get_column ''account'' platform = Inr (Utf8 [Some ''assets'', Some ''equity''])
   \<and> filter_accounts (Many []) ''account'' False platform = Inr platform
   \<and> (\<exists>df'. filter_accounts (Many []) ''account'' True platform = Inr df'
          \<and> columns df' = columns platform \<and> height df' = 0 \<and> rows df' = [])"
proof -
  have wf: "wf_frame platform" by (simp add: platform_def wf_frame_def columns_def height_def)
  have col: "get_column ''account'' platform = Inr (Utf8 [Some ''assets'', Some ''equity''])"
    by (simp add: platform_def get_column_def)
  have nn: "list_all (\<lambda>v. v \<noteq> None) [Some ''assets'', Some ''equity'']" by simp
  note t = filter_accounts_no_patterns [OF wf col nn]
  show ?thesis by (intro conjI wf col conjunct1 [OF conjunct2 [OF t]] conjunct2 [OF conjunct2 [OF t]])
qed

subsection \<open>The identifier column given as Account\<close>

lemma normalize_Account:
  assumes "distinct (columns df)" "''Account'' \<in> set (columns df)" "''account'' \<notin> set (columns df)"
  shows "normalize df
           = Inr (map (\<lambda>c. (if fst c = ''Account'' then ''account'' else fst c, snd c)) df)"
proof -
  let ?f = "\<lambda>n. if n = ''Account'' then ''account'' else n"
  have inj: "inj_on ?f (set (columns df))"
    using assms(3) by (auto simp: inj_on_def)
  have "distinct (map ?f (columns df))"
    using assms(1) inj by (simp add: distinct_map)
  moreover have "columns (map (\<lambda>c. (?f (fst c), snd c)) df) = map ?f (columns df)"
    by (simp add: columns_def comp_def)
  ultimately have d: "distinct (columns (map (\<lambda>c. (?f (fst c), snd c)) df))" by simp
  have m: "(\<lambda>c. (case map_of [(''Account'', ''account'')] (fst c) of None \<Rightarrow> fst c | Some n \<Rightarrow> n,
                  snd c))
             = (\<lambda>c :: string \<times> ('a, 'b) series. (?f (fst c), snd c))"
    by (auto simp: fun_eq_iff)
  show ?thesis
    unfolding normalize_def rename_def Let_def m using assms(2) d by simp
qed

text \<open>
  C9, as amended. On a table with a column \<open>Account\<close> and no column
  \<open>account\<close>, \<open>transpose(id_col="Account")\<close> with \<open>auto_name\<close> fails
  with the error that the column \<open>Account\<close> is not found: line 200 has renamed it
  to \<open>account\<close> before line 203 reads the identifier column.
\<close>

theorem transpose_explicit_Account:
  assumes "distinct (columns df)"
    and "''Account'' \<in> set (columns df)"
    and "''account'' \<notin> set (columns df)"
  shows "transpose_df (Some ''Account'') include_header True df
           = Inl (ColumnNotFoundError ''Account'')"
proof -
  let ?df1 = "map (\<lambda>c. (if fst c = ''Account'' then ''account'' else fst c, snd c)) df"
  have "''Account'' \<notin> fst ` set ?df1" by (auto split: if_splits)
  then have "map_of ?df1 ''Account'' = None" by (simp add: map_of_eq_None_iff)
  then have "get_column ''Account'' ?df1 = Inl (ColumnNotFoundError ''Account'')"
    by (simp add: get_column_def)
  then show ?thesis
    by (simp add: transpose_df_def auto_detect_def normalize_Account [OF assms])
qed

theorem transpose_explicit_Account_witness:
  "distinct (columns capital) \<and> ''Account'' \<in> set (columns capital)
   \<and> ''account'' \<notin> set (columns capital)
   \<and> transpose_df (Some ''Account'') True True capital = Inl (ColumnNotFoundError ''Account'')"
proof -
  have d: "distinct (columns capital)" by (simp add: capital_def columns_def)
  have a: "''Account'' \<in> set (columns capital)" by (simp add: capital_def columns_def)
  have b: "''account'' \<notin> set (columns capital)" by (simp add: capital_def columns_def)
  show ?thesis by (intro conjI d a b transpose_explicit_Account [OF d a b])
qed

text \<open>
  The claim as it stands fails on a table that has both columns, \<open>Account\<close> and
  \<open>account\<close>: the renaming of line 200 would give two columns of one name, the
  library refuses it, and the call fails there, with the error of a duplicate name.
\<close>

theorem transpose_explicit_Account_counterexample:
  "''Account'' \<in> set (columns both_cases)
   \<and> transpose_df (Some ''Account'') True True both_cases = Inl DuplicateError"
  by (simp add: both_cases_def transpose_df_def auto_detect_def normalize_def rename_def
      columns_def)

subsection \<open>Dates\<close>

lemma in_columns: "map_of df name = Some s \<Longrightarrow> name \<in> set (columns df)"
  by (auto simp: columns_def dest: map_of_SomeD intro: rev_image_eqI)

lemma with_columns_one:
  assumes "name \<in> set (columns df)" "series_len s = height df"
  shows "with_columns [(name, s)] df = Inr (map (\<lambda>c. if fst c = name then (name, s) else c) df)"
  using assms by (simp add: with_columns_def upsert_def)

lemma convert_eq:
  "convert parse vs = (if conforms parse vs then Inr (parsed parse vs) else Inl InvalidOperationError)"
  by (simp add: convert_def conforms_def parsed_def)

text \<open>
  C8. On a table whose named column is a string column, \<open>col_to_datetime\<close> with a
  format returns the same table with that column, in its place, turned into the datetime
  column of the values the library's parser reads, one for each value and null for null,
  when every value conforms to the format; when some value does not conform the call
  fails with the library's conversion error, and no table is returned. The defaults are
  the column \<open>date\<close> and the format \<open>%Y-%m\<close>.
\<close>

theorem col_to_datetime_strict:
  assumes "wf_frame df"
    and "get_column datecol_name df = Inr (Utf8 vs)"
  shows "(conforms (strptime date_format) vs \<longrightarrow>
            col_to_datetime strptime datecol_name date_format df
              = Inr (map (\<lambda>c. if fst c = datecol_name
                               then (datecol_name, Datetime (parsed (strptime date_format) vs))
                               else c) df)
            \<and> length (parsed (strptime date_format) vs) = length vs)
       \<and> (\<not> conforms (strptime date_format) vs \<longrightarrow>
            col_to_datetime strptime datecol_name date_format df = Inl InvalidOperationError)
       \<and> col_to_datetime_default strptime df = col_to_datetime strptime ''date'' ''%Y-%m'' df"
proof -
  from assms(2) have m: "map_of df datecol_name = Some (Utf8 vs)"
    by (simp add: get_column_Inr)
  have len: "length vs = height df"
    using wf_frame_len [OF assms(1) m] by simp
  have "series_len (Datetime (parsed (strptime date_format) vs) :: ('a, 'b) series) = height df"
    by (simp add: parsed_def len)
  from with_columns_one [OF in_columns [OF m] this] show ?thesis
    by (simp add: col_to_datetime_def col_to_datetime_default_def assms(2) str_to_datetime_def
        convert_eq parsed_def)
qed

theorem col_to_datetime_strict_witness:
  "wf_frame dated \<and> get_column ''date'' dated = Inr (Utf8 [Some ''2024-01-15'', None])
   \<and> col_to_datetime day_parser ''date'' ''%Y-%m-%d'' dated
       = Inr [(''date'', Datetime [Some 1705276800000000, None]),
              (''amount'', Utf8 [Some ''1'', Some ''2''])]
   \<and> wf_frame misdated
   \<and> get_column ''date'' misdated = Inr (Utf8 [Some ''2024-01-15'', Some ''soon''])
   \<and> col_to_datetime day_parser ''date'' ''%Y-%m-%d'' misdated = Inl InvalidOperationError"
proof -
  have wf: "wf_frame dated" by (simp add: dated_def wf_frame_def columns_def height_def)
  have col: "get_column ''date'' dated = Inr (Utf8 [Some ''2024-01-15'', None])"
    by (simp add: dated_def get_column_def)
  have wf': "wf_frame misdated" by (simp add: misdated_def wf_frame_def columns_def height_def)
  have col': "get_column ''date'' misdated = Inr (Utf8 [Some ''2024-01-15'', Some ''soon''])"
    by (simp add: misdated_def get_column_def)
  have ok: "conforms (day_parser ''%Y-%m-%d'') [Some ''2024-01-15'', None]"
    by (simp add: conforms_def day_parser_def)
  have bad: "\<not> conforms (day_parser ''%Y-%m-%d'') [Some ''2024-01-15'', Some ''soon'']"
    by (simp add: conforms_def day_parser_def)
  have "col_to_datetime day_parser ''date'' ''%Y-%m-%d'' dated
       = Inr [(''date'', Datetime [Some 1705276800000000, None]),
              (''amount'', Utf8 [Some ''1'', Some ''2''])]"
    using col_to_datetime_strict [OF wf col, of day_parser "''%Y-%m-%d''"] ok
    by (simp add: dated_def parsed_def day_parser_def)
  moreover have "col_to_datetime day_parser ''date'' ''%Y-%m-%d'' misdated = Inl InvalidOperationError"
    using col_to_datetime_strict [OF wf' col', of day_parser "''%Y-%m-%d''"] bad by simp
  ultimately show ?thesis using wf col wf' col' by (intro conjI)
qed

subsection \<open>Currency strings to numbers\<close>

lemma sequence_Inr:
  "sequence (map f xs) = Inr ys \<Longrightarrow> list_all2 (\<lambda>x y. f x = Inr y) xs ys"
proof (induction xs arbitrary: ys)
  case Nil
  then show ?case by simp
next
  case (Cons x xs)
  then show ?case by (auto split: sum.splits)
qed

lemma currency_expr_Inr:
  assumes "currency_expr cast currency_symbol col df = Inr x"
  shows "fst x = col \<and> col \<in> set (columns df)"
proof -
  from assms obtain s where s: "get_column col df = Inr s"
    by (auto simp: currency_expr_def split: sum.splits)
  then have c: "col \<in> set (columns df)"
    by (simp add: get_column_Inr in_columns)
  from assms have "fst x = col"
    by (auto simp: currency_expr_def split: sum.splits)
  with c show ?thesis by simp
qed

lemma columns_upsert:
  "fst new \<in> set (columns df) \<Longrightarrow> columns (upsert new df) = columns df"
  by (auto simp: upsert_def columns_def)

lemma columns_fold_upsert:
  "fst ` set new \<subseteq> set (columns df) \<Longrightarrow> columns (fold upsert new df) = columns df"
  by (induction new arbitrary: df) (simp_all add: columns_upsert)

lemma map_of_replace_other:
  "c \<noteq> fst new \<Longrightarrow>
   map_of (map (\<lambda>x. if fst x = fst new then new else x) df) c = map_of df c"
  by (induction df) auto

lemma map_of_replace_same:
  "fst new \<in> fst ` set df \<Longrightarrow>
   map_of (map (\<lambda>x. if fst x = fst new then new else x) df) (fst new) = Some (snd new)"
  by (induction df) auto

lemma map_of_upsert_other:
  "c \<noteq> fst new \<Longrightarrow> map_of (upsert new df) c = map_of df c"
  using map_of_replace_other [of c new df]
  by (cases new) (auto simp: upsert_def map_add_def split: option.splits)

lemma map_of_upsert_same:
  "map_of (upsert new df) (fst new) = Some (snd new)"
proof (cases "fst new \<in> set (columns df)")
  case True
  then show ?thesis by (simp add: upsert_def columns_def map_of_replace_same)
next
  case False
  then have "map_of df (fst new) = None"
    by (simp add: map_of_eq_None_iff columns_def)
  with False show ?thesis by (cases new) (simp add: upsert_def map_add_def)
qed

lemma map_of_fold_upsert_other:
  "c \<notin> fst ` set new \<Longrightarrow> map_of (fold upsert new df) c = map_of df c"
  by (induction new arbitrary: df) (simp_all add: map_of_upsert_other)

lemma map_of_fold_upsert_same:
  "distinct (map fst new) \<Longrightarrow> x \<in> set new \<Longrightarrow> map_of (fold upsert new df) (fst x) = Some (snd x)"
proof (induction new arbitrary: df)
  case Nil
  then show ?case by simp
next
  case (Cons n ns)
  show ?case
  proof (cases "x = n")
    case True
    with Cons.prems(1) have "fst x \<notin> fst ` set ns" by simp
    then show ?thesis by (simp add: True map_of_fold_upsert_other map_of_upsert_same)
  next
    case False
    with Cons show ?thesis by simp
  qed
qed

lemma with_columns_Inr:
  "with_columns new df = Inr df' \<Longrightarrow> df' = fold upsert new df \<and> distinct (map fst new)"
  by (simp add: with_columns_def split: if_splits)


lemma list_all2_left: "list_all2 P xs ys \<Longrightarrow> x \<in> set xs \<Longrightarrow> \<exists>y \<in> set ys. P x y"
  by (induction rule: list_all2_induct) auto

lemma list_all2_right: "list_all2 P xs ys \<Longrightarrow> y \<in> set ys \<Longrightarrow> \<exists>x \<in> set xs. P x y"
  by (induction rule: list_all2_induct) auto

lemma currency_to_number_Inr:
  assumes "currency_to_number cast currency_symbol preserve_cols change_cols df = Inr df'"
  defines "cols \<equiv> filter (\<lambda>col. col \<notin> set (case preserve_cols of None \<Rightarrow> [] | Some ps \<Rightarrow> ps))
                    (case change_cols of None \<Rightarrow> columns df | Some cs \<Rightarrow> cs)"
  shows "\<exists>new. list_all2 (\<lambda>col y. currency_expr cast currency_symbol col df = Inr y) cols new
             \<and> distinct (map fst new) \<and> df' = fold upsert new df"
proof -
  from assms(1) obtain new
    where new: "sequence (map (\<lambda>col. currency_expr cast currency_symbol col df) cols) = Inr new"
      and wc: "with_columns new df = Inr df'"
    unfolding currency_to_number_def Let_def cols_def by (auto split: sum.splits)
  from sequence_Inr [OF new] with_columns_Inr [OF wc] show ?thesis by blast
qed

text \<open>
  C7. Whenever \<open>currency_to_number\<close> returns a table, the table has the columns of
  the input under the same names in the same order, and every column named in
  \<open>preserve_cols\<close> is the column of the input, values and type, whether or not
  \<open>change_cols\<close> names it too. On the table with the columns \<open>date\<close>
  (2024-01) and \<open>amount\<close> (100.50 behind the pound sign), preserving \<open>date\<close>
  leaves it as it is and turns \<open>amount\<close> into the float 100.50.
\<close>

theorem currency_to_number_preserves:
  "(currency_to_number cast currency_symbol (Some preserve) change_cols df = Inr df'
      \<and> c \<in> set preserve
    \<longrightarrow> columns df' = columns df \<and> get_column c df' = get_column c df)
   \<and> currency_to_number decimal_cast pound (Some [''date'']) None statement
       = Inr [(''date'', Utf8 [Some ''2024-01'']), (''amount'', Float64 [Some (201 / 2)])]"
proof (intro conjI impI)
  assume a: "currency_to_number cast currency_symbol (Some preserve) change_cols df = Inr df'
               \<and> c \<in> set preserve"
  let ?cols = "filter (\<lambda>col. col \<notin> set preserve)
                 (case change_cols of None \<Rightarrow> columns df | Some cs \<Rightarrow> cs)"
  from currency_to_number_Inr [of cast currency_symbol "Some preserve" change_cols df df'] a
  obtain new
    where l: "list_all2 (\<lambda>col y. currency_expr cast currency_symbol col df = Inr y) ?cols new"
      and df': "df' = fold upsert new df"
    by auto
  have names: "fst y \<in> set (columns df) \<and> fst y \<notin> set preserve" if "y \<in> set new" for y
  proof -
    from list_all2_right [OF l that] obtain col
      where "col \<in> set ?cols" "currency_expr cast currency_symbol col df = Inr y" by blast
    with currency_expr_Inr [of cast currency_symbol col df y] show ?thesis by auto
  qed
  then have sub: "fst ` set new \<subseteq> set (columns df)" by auto
  from names a have "c \<notin> fst ` set new" by auto
  then have "map_of df' c = map_of df c"
    unfolding df' by (rule map_of_fold_upsert_other)
  then show "get_column c df' = get_column c df" by (simp add: get_column_def)
  show "columns df' = columns df"
    unfolding df' by (rule columns_fold_upsert [OF sub])
next
  have e: "decimal_cast ''100.50'' = Some (201 / 2)"
    by (simp add: decimal_cast_def)
  show "currency_to_number decimal_cast pound (Some [''date'']) None statement
       = Inr [(''date'', Utf8 [Some ''2024-01'']), (''amount'', Float64 [Some (201 / 2)])]"
    by (simp add: currency_to_number_def statement_def columns_def currency_expr_def
        get_column_def str_replace_def plain_def metachars_def pound_def cast_float64_def
        convert_def e with_columns_def height_def upsert_def)
qed

theorem currency_to_number_preserves_witness:
  "currency_to_number decimal_cast pound (Some [''date'']) (Some [''date'', ''amount'']) statement
       = Inr [(''date'', Utf8 [Some ''2024-01'']), (''amount'', Float64 [Some (201 / 2)])]
   \<and> ''date'' \<in> set [''date'']
   \<and> columns [(''date'', Utf8 [Some ''2024-01'']), (''amount'', Float64 [Some (201 / 2 :: rat)])
               :: string \<times> (rat, int) series]
       = columns statement
   \<and> get_column ''date''
        [(''date'', Utf8 [Some ''2024-01'']), (''amount'', Float64 [Some (201 / 2 :: rat)])
         :: string \<times> (rat, int) series]
       = get_column ''date'' statement"
proof -
  have e: "decimal_cast ''100.50'' = Some (201 / 2)"
    by (simp add: decimal_cast_def)
  have r: "currency_to_number decimal_cast pound (Some [''date'']) (Some [''date'', ''amount''])
             statement
           = Inr [(''date'', Utf8 [Some ''2024-01'']), (''amount'', Float64 [Some (201 / 2)])]"
    by (simp add: currency_to_number_def statement_def columns_def currency_expr_def
        get_column_def str_replace_def plain_def metachars_def pound_def cast_float64_def
        convert_def e with_columns_def height_def upsert_def)
  have m: "''date'' \<in> set [''date'']" by simp
  from conjunct1 [OF currency_to_number_preserves
      [of decimal_cast pound "[''date'']" "Some [''date'', ''amount'']" statement _ "''date''"]]
    r m
  show ?thesis by simp
qed

text \<open>
  C3 fails on the code. The currency symbol goes to \<^verbatim>\<open>str.replace\<close> as a
  regular expression, and one match is replaced. The dollar sign is the anchor of the end
  of the string: its match is empty, nothing is removed from \<open>$100\<close>, the cast
  of \<open>$100\<close> fails and the call raises, where the claim and the docstring promise
  the number 100. Of a value with the pound sign twice one pound sign is left, and the
  call raises as well, where the claim promises the number 5.
\<close>

theorem currency_to_number_dollar:
  "str_replace ''$'' [] (Utf8 [Some ''$100''] :: (rat, int) series) = Inr [Some ''$100'']
   \<and> decimal_cast ''$100'' = None
   \<and> decimal_cast ''100'' = Some 100
   \<and> currency_to_number decimal_cast ''$'' None None dollars = Inl InvalidOperationError
   \<and> str_replace pound [] (Utf8 [Some (pound @ pound @ ''5'')] :: (rat, int) series)
       = Inr [Some (pound @ ''5'')]
   \<and> decimal_cast (pound @ ''5'') = None
   \<and> decimal_cast ''5'' = Some 5
   \<and> currency_to_number decimal_cast pound None None doubled = Inl InvalidOperationError"
proof (intro conjI)
  show r: "str_replace ''$'' [] (Utf8 [Some ''$100''] :: (rat, int) series) = Inr [Some ''$100'']"
    by (simp add: str_replace_def plain_def metachars_def replace_at_end_def ends_with_def)
  show c: "decimal_cast ''$100'' = None"
    by (simp add: decimal_cast_def)
  show "decimal_cast ''100'' = Some 100"
    by (simp add: decimal_cast_def)
  show "currency_to_number decimal_cast ''$'' None None dollars = Inl InvalidOperationError"
    by (simp add: currency_to_number_def dollars_def columns_def currency_expr_def
        get_column_def r cast_float64_def convert_def c)
  show "str_replace pound [] (Utf8 [Some (pound @ pound @ ''5'')] :: (rat, int) series)
       = Inr [Some (pound @ ''5'')]"
    by (simp add: str_replace_def plain_def metachars_def pound_def)
  show "decimal_cast (pound @ ''5'') = None"
    by (simp add: decimal_cast_def pound_def)
  show "decimal_cast ''5'' = Some 5"
    by (simp add: decimal_cast_def)
  show "currency_to_number decimal_cast pound None None doubled = Inl InvalidOperationError"
    by (simp add: currency_to_number_def doubled_def columns_def currency_expr_def get_column_def
        str_replace_def plain_def metachars_def pound_def cast_float64_def convert_def
        decimal_cast_def)
qed

subsection \<open>Loading CSV\<close>





text \<open>
  C5 fails on the code. \<open>from_csv\<close> hands its argument to \<^verbatim>\<open>pl.read_csv\<close>,
  and the library takes a \<^verbatim>\<open>str\<close> for the path of a file. A CSV text, which the
  signature and the docstring allow as the argument, names no file: the call raises
  \<open>FileNotFoundError\<close>, where the claim promises the table of the strings of the
  text. Were there a file of that name, the table would be read from the file, not from
  the text.
\<close>

theorem from_csv_text_is_path:
  "(fs csv_text = None \<longrightarrow>
      from_csv fs (Text csv_text) infer_schema = (Inl FileNotFoundError :: error + ('f, 't) frame))
   \<and> (fs csv_text = Some content \<longrightarrow>
      from_csv fs (Text csv_text) infer_schema
        = (from_csv fs (StringIO content) infer_schema :: error + ('f, 't) frame))"
  by (simp add: from_csv_def read_csv_def)

theorem from_csv_text_is_path_witness:
  "from_csv (\<lambda>path. None) (Text balance_csv) False
     = (Inl FileNotFoundError :: error + (rat, int) frame)
   \<and> from_csv (\<lambda>path. if path = balance_csv then Some ''a'' else None) (Text balance_csv) False
     = (Inr [(''a'', Utf8 [])] :: error + (rat, int) frame)"
proof -
  have 1: "from_csv (\<lambda>path. None) (Text balance_csv) False
             = (Inl FileNotFoundError :: error + (rat, int) frame)"
    using from_csv_text_is_path [of "\<lambda>path. None" balance_csv False] by simp
  have "from_csv (\<lambda>path. if path = balance_csv then Some ''a'' else None) (Text balance_csv) False
          = (from_csv (\<lambda>path. if path = balance_csv then Some ''a'' else None) (StringIO ''a'')
               False :: error + (rat, int) frame)"
    using from_csv_text_is_path
      [of "\<lambda>path. if path = balance_csv then Some ''a'' else None" balance_csv False "''a''"]
    by simp
  also have "\<dots> = Inr [(''a'', Utf8 [])]"
    by (simp add: from_csv_def read_csv_def parse_csv_def regular_csv_def csv_fields_def
        csv_lines_def)
  finally show ?thesis using 1 by simp
qed

subsection \<open>Transpose\<close>

lemma height_snd: "map snd a = map snd b \<Longrightarrow> height a = height b"
  by (cases a; cases b) (simp_all add: height_def)

lemma normalize_snd: "normalize df = Inr df1 \<Longrightarrow> map snd df1 = map snd df"
  by (auto simp: normalize_def rename_def Let_def comp_def split: if_splits list.splits)

lemma normalize_distinct:
  "distinct (columns df) \<Longrightarrow> normalize df = Inr df1 \<Longrightarrow> distinct (columns df1)"
  by (auto simp: normalize_def rename_def Let_def split: if_splits list.splits)

lemma those_str_values:
  "list_all (\<lambda>c. str_values (snd c) \<noteq> None) df \<Longrightarrow>
   those (map (\<lambda>c. str_values (snd c)) df) = Some (map (\<lambda>c. the (str_values (snd c))) df)"
  by (induction df) auto

lemma those_py_str:
  "list_all (\<lambda>v. v \<noteq> None) ids \<Longrightarrow>
   those (map py_str (to_list (Utf8 ids))) = Some (map the ids)"
  by (induction ids) auto

lemma length_str_values:
  "str_values s \<noteq> None \<Longrightarrow> length (the (str_values s)) = series_len s"
  by (cases s) simp_all

lemma pl_transpose_strings:
  assumes "df \<noteq> []" "0 < h" "list_all (\<lambda>c. series_len (snd c) = h) df"
    and "list_all (\<lambda>c. str_values (snd c) \<noteq> None) df"
  shows "\<exists>t. pl_transpose True df = Inr t \<and> length t = Suc h"
proof -
  have hd: "height df = h"
    using assms(1,3) by (cases df) (simp_all add: height_def)
  let ?cols = "map (\<lambda>c. the (str_values (snd c))) df"
  have "list_all (\<lambda>c. length c = h) ?cols"
    using assms(3,4) by (auto simp: list_all_iff length_str_values)
  then have "length (zip_rows h ?cols) = h" by (rule length_zip_rows)
  then show ?thesis
    using assms(1,2) by (simp add: pl_transpose_def hd width_def those_str_values [OF assms(4)])
qed


lemma without_nonempty:
  assumes "distinct (columns df)" "1 < length df"
  shows "without c df \<noteq> []"
proof -
  from assms(2) obtain x y rest where df: "df = x # y # rest"
    by (cases df; cases "tl df") auto
  with assms(1) have "fst x \<noteq> fst y" by (simp add: columns_def)
  then have "fst x \<noteq> c \<or> fst y \<noteq> c" by auto
  then show ?thesis by (auto simp: without_def df)
qed

text \<open>
  When the call returns. On a table with at least one row and a column besides the
  identifier the library's transpose returns, and then so does the call, provided the
  identifier's values can be headers.
\<close>

lemma transpose_returns:
  assumes wf: "wf_frame df" and u: "all_utf8 df" and h: "0 < height df" and w: "1 < width df"
    and det: "auto_detect id_col df = Some c" and n: "normalize df = Inr df1"
    and g: "get_column c df1 = Inr (Utf8 ids)"
    and nn: "list_all (\<lambda>v. v \<noteq> None) ids" and d: "distinct (opposite c # map the ids)"
  shows "\<exists>t. pl_transpose True (without c df1) = Inr t
           \<and> transpose_df id_col True True df = Inr (zip (opposite c # map the ids) (map snd t))
           \<and> columns (zip (opposite c # map the ids) (map snd t)) = opposite c # map the ids"
proof -
  have s: "map snd df1 = map snd df" by (rule normalize_snd [OF n])
  then have sets: "snd ` set df1 = snd ` set df" by (metis set_map)
  have len: "series_len (snd x) = height df" if "x \<in> set df1" for x
  proof -
    from that sets obtain y where "y \<in> set df" "snd y = snd x" by (metis imageE imageI)
    with wf show ?thesis by (auto simp: wf_frame_def list_all_iff)
  qed
  have str: "str_values (snd x) \<noteq> None" if "x \<in> set df1" for x
  proof -
    from that sets obtain y where "y \<in> set df" "snd y = snd x" by (metis imageE imageI)
    with u show ?thesis by (auto simp: all_utf8_def list_all_iff)
  qed
  from g have m: "map_of df1 c = Some (Utf8 ids)" by (simp add: get_column_Inr)
  then have cin: "c \<in> set (columns df1)" by (rule in_columns)
  from m have "(c, Utf8 ids) \<in> set df1" by (rule map_of_SomeD)
  from len [OF this] have li: "length ids = height df" by simp
  have dc: "distinct (columns df1)"
    using wf n by (auto simp: wf_frame_def intro: normalize_distinct)
  have "length df1 = length df" using s by (metis length_map)
  with w have "1 < length df1" by (simp add: width_def)
  from without_nonempty [OF dc this] have ne: "without c df1 \<noteq> []" .
  have l1: "list_all (\<lambda>c. series_len (snd c) = height df) (without c df1)"
    using len by (auto simp: list_all_iff without_def)
  have l2: "list_all (\<lambda>c. str_values (snd c) \<noteq> None) (without c df1)"
    using str by (auto simp: list_all_iff without_def)
  from pl_transpose_strings [OF ne h l1 l2] obtain t
    where t: "pl_transpose True (without c df1) = Inr t" "length t = Suc (height df)"
    by blast
  have names: "those (map py_str (PyStr (opposite c) # to_list (Utf8 ids)))
                 = Some (opposite c # map the ids)"
    using those_py_str [OF nn] by simp
  have sc: "set_columns (PyStr (opposite c) # to_list (Utf8 ids)) t
              = Inr (zip (opposite c # map the ids) (map snd t))"
    unfolding set_columns_def names using d t(2) li by (simp add: width_def)
  have dr: "drop_col c df1 = Inr (without c df1)"
    using cin by (simp add: drop_col_def without_def)
  have r: "transpose_df id_col True True df = Inr (zip (opposite c # map the ids) (map snd t))"
    by (simp add: transpose_df_def det n g dr t(1) sc opposite_def [symmetric] del: to_list.simps)
  have "columns (zip (opposite c # map the ids) (map snd t)) = opposite c # map the ids"
    unfolding columns_def using t(2) li by (simp only: map_fst_zip length_map list.size length_Cons)
  with t(1) r show ?thesis by blast
qed













end
